theory Spec2Isabelle
  imports Complex_Main "HOL-Library.Sublist"
begin

section \<open>Parsed documents and Python's operations on them\<close>

text \<open>
  The script \<^verbatim>\<open>scripts/generate-performance-charts.py\<close> works on whatever
  \<^verbatim>\<open>json.load\<close> returns. A parsed document is a value of \<open>json\<close>: \<open>JNull\<close> is
  Python's \<^verbatim>\<open>None\<close>, \<open>JArr\<close> a list, \<open>JObj\<close> a dict given by its items (a key is
  looked up with \<open>map_of\<close>). Numbers are exact rationals: Python's \<^verbatim>\<open>int\<close> is
  unbounded and the rounding of its \<^verbatim>\<open>float\<close> (binary64, with infinities and NaN) is
  not modelled.
\<close>

datatype json =
    JNull
  | JBool bool
  | JNum rat
  | JStr string
  | JArr "json list"
  | JObj "(string \<times> json) list"

datatype py_error = KeyError | TypeError | AttributeError | ZeroDivisionError

text \<open>An exception aborts the function that raises it: \<open>Inl e\<close> is propagated.\<close>

definition rbind :: "py_error + 'a \<Rightarrow> ('a \<Rightarrow> py_error + 'b) \<Rightarrow> py_error + 'b" where
  "rbind r f = (case r of Inl e \<Rightarrow> Inl e | Inr v \<Rightarrow> f v)"

text \<open>\<^verbatim>\<open>d.get(k, dflt)\<close>: only a dict has the method.\<close>

definition dict_get :: "json \<Rightarrow> string \<Rightarrow> json \<Rightarrow> py_error + json" where
  "dict_get d k dflt =
     (case d of
        JObj kvs \<Rightarrow> (case map_of kvs k of Some v \<Rightarrow> Inr v | None \<Rightarrow> Inr dflt)
      | _ \<Rightarrow> Inl AttributeError)"

text \<open>\<^verbatim>\<open>b[k]\<close> for a string \<open>k\<close>: a missing key of a dict is a KeyError, and nothing
  else in a parsed document can be subscripted with a string.\<close>

definition subscript :: "json \<Rightarrow> string \<Rightarrow> py_error + json" where
  "subscript b k =
     (case b of
        JObj kvs \<Rightarrow> (case map_of kvs k of Some v \<Rightarrow> Inr v | None \<Rightarrow> Inl KeyError)
      | _ \<Rightarrow> Inl TypeError)"

text \<open>\<^verbatim>\<open>for b in v\<close>: a list gives its elements, a dict its keys, a string its
  characters; nothing else is iterable.\<close>

definition py_iter :: "json \<Rightarrow> py_error + json list" where
  "py_iter v =
     (case v of
        JArr xs \<Rightarrow> Inr xs
      | JObj kvs \<Rightarrow> Inr (map (\<lambda>kv. JStr (fst kv)) kvs)
      | JStr s \<Rightarrow> Inr (map (\<lambda>c. JStr [c]) s)
      | _ \<Rightarrow> Inl TypeError)"

definition py_len :: "json \<Rightarrow> py_error + int" where
  "py_len v =
     (case v of
        JArr xs \<Rightarrow> Inr (int (length xs))
      | JObj kvs \<Rightarrow> Inr (int (length kvs))
      | JStr s \<Rightarrow> Inr (int (length s))
      | _ \<Rightarrow> Inl TypeError)"

text \<open>Truth value of a parsed value (\<^verbatim>\<open>not v\<close> is its negation).\<close>

fun py_truthy :: "json \<Rightarrow> bool" where
  "py_truthy JNull = False"
| "py_truthy (JBool b) = b"
| "py_truthy (JNum r) = (r \<noteq> 0)"
| "py_truthy (JStr s) = (s \<noteq> [])"
| "py_truthy (JArr xs) = (xs \<noteq> [])"
| "py_truthy (JObj kvs) = (kvs \<noteq> [])"

text \<open>The numbers of Python: \<^verbatim>\<open>bool\<close> is a subclass of \<^verbatim>\<open>int\<close>.\<close>

fun as_number :: "json \<Rightarrow> rat option" where
  "as_number (JNum r) = Some r"
| "as_number (JBool b) = Some (if b then 1 else 0)"
| "as_number _ = None"

text \<open>A value in an arithmetic expression, and \<^verbatim>\<open>v > n\<close> for a numeric literal \<open>n\<close>:
  a TypeError unless \<open>v\<close> is a number.\<close>

definition py_num :: "json \<Rightarrow> py_error + rat" where
  "py_num v = (case as_number v of Some r \<Rightarrow> Inr r | None \<Rightarrow> Inl TypeError)"

definition py_gt :: "json \<Rightarrow> rat \<Rightarrow> py_error + bool" where
  "py_gt v n = rbind (py_num v) (\<lambda>r. Inr (n < r))"

definition truediv :: "rat \<Rightarrow> rat \<Rightarrow> py_error + rat" where
  "truediv x y = (if y = 0 then Inl ZeroDivisionError else Inr (x / y))"

text \<open>Keys of a dict: equal numbers are one key (\<^verbatim>\<open>True == 1 == 1.0\<close>), and a list or
  a dict cannot be hashed.\<close>

datatype key = KNone | KNum rat | KStr string

fun py_hash_key :: "json \<Rightarrow> py_error + key" where
  "py_hash_key JNull = Inr KNone"
| "py_hash_key (JBool b) = Inr (KNum (if b then 1 else 0))"
| "py_hash_key (JNum r) = Inr (KNum r)"
| "py_hash_key (JStr s) = Inr (KStr s)"
| "py_hash_key (JArr xs) = Inl TypeError"
| "py_hash_key (JObj kvs) = Inl TypeError"

text \<open>\<^verbatim>\<open>s.replace(pat, '')\<close>: every occurrence of \<open>pat\<close>, found from the left without
  overlap, is removed.\<close>

function py_replace_empty :: "string \<Rightarrow> string \<Rightarrow> string" where
  "py_replace_empty pat [] = []"
| "py_replace_empty pat (c # cs) =
     (if pat \<noteq> [] \<and> prefix pat (c # cs)
      then py_replace_empty pat (drop (length pat) (c # cs))
      else c # py_replace_empty pat cs)"
  by pat_completeness auto
termination
  by (relation "measure (\<lambda>(pat, s). length s)") (auto simp: Suc_diff_le prefix_length_le)

section \<open>load_performance_data\<close>

text \<open>
  \<^verbatim>\<open>open\<close> and \<^verbatim>\<open>json.load\<close> are not code of the script; they are parameters:
  \<open>read_file name\<close> is the content of the file, or \<open>None\<close> where \<^verbatim>\<open>open\<close> or the read
  raises (absent, unreadable), and \<open>parse content\<close> is the parsed document, or \<open>None\<close> where
  \<^verbatim>\<open>json.load\<close> raises (not well-formed). Both exceptions are caught by
  \<^verbatim>\<open>except Exception\<close>, and the function returns \<^verbatim>\<open>None\<close>, which is \<open>JNull\<close>.
\<close>

definition load_performance_data ::
  "(string \<Rightarrow> string option) \<Rightarrow> (string \<Rightarrow> json option) \<Rightarrow> string \<Rightarrow> json" where
  "load_performance_data read_file parse filename =
     (case read_file filename of
        None \<Rightarrow> JNull
      | Some content \<Rightarrow> (case parse content of None \<Rightarrow> JNull | Some doc \<Rightarrow> doc))"

section \<open>The lookup of the baseline benchmarks\<close>

text \<open>\<^verbatim>\<open>{b['name']: b for b in baseline_benchmarks}\<close>: a later entry replaces an earlier
  one with the same key.\<close>

fun build_lookup :: "(key \<rightharpoonup> json) \<Rightarrow> json list \<Rightarrow> py_error + (key \<rightharpoonup> json)" where
  "build_lookup m [] = Inr m"
| "build_lookup m (b # bs) =
     rbind (subscript b ''name'') (\<lambda>n.
     rbind (py_hash_key n) (\<lambda>k.
     build_lookup (m(k \<mapsto> b)) bs))"

section \<open>create_benchmark_comparison_chart: the data of the chart\<close>

text \<open>The four lists \<^verbatim>\<open>benchmark_names\<close>, \<^verbatim>\<open>current_values\<close>,
  \<^verbatim>\<open>baseline_values\<close> and \<^verbatim>\<open>improvements\<close> are appended to together; a row is one
  entry of each.\<close>

record chart_row =
  benchmark_name :: string
  current_value :: json
  baseline_value :: json
  improvement :: rat

text \<open>Line 58: \<^verbatim>\<open>((baseline_ns - current_ns) / baseline_ns) * 100\<close>.\<close>

definition improvement_of :: "json \<Rightarrow> json \<Rightarrow> py_error + rat" where
  "improvement_of baseline_ns current_ns =
     rbind (py_num baseline_ns) (\<lambda>b.
     rbind (py_num current_ns) (\<lambda>c.
     rbind (truediv (b - c) b) (\<lambda>q.
     Inr (q * 100))))"

text \<open>One pass of the loop body (lines 48 to 63): \<open>None\<close> where nothing is appended.
  \<^verbatim>\<open>name.replace\<close> exists only for a string.\<close>

definition chart_step :: "(key \<rightharpoonup> json) \<Rightarrow> json \<Rightarrow> py_error + chart_row option" where
  "chart_step baseline_lookup current_bench =
     rbind (subscript current_bench ''name'') (\<lambda>n.
     rbind (py_hash_key n) (\<lambda>k.
       case baseline_lookup k of
         None \<Rightarrow> Inr None
       | Some baseline_bench \<Rightarrow>
           rbind (dict_get current_bench ''ns_per_op'' (JNum 0)) (\<lambda>current_ns.
           rbind (dict_get baseline_bench ''ns_per_op'' (JNum 0)) (\<lambda>baseline_ns.
           rbind (py_gt baseline_ns 0) (\<lambda>g1.
             if \<not> g1 then Inr None else
           rbind (py_gt current_ns 0) (\<lambda>g2.
             if \<not> g2 then Inr None else
           rbind (improvement_of baseline_ns current_ns) (\<lambda>imp.
             case n of
               JStr s \<Rightarrow>
                 Inr (Some \<lparr>benchmark_name = py_replace_empty ''Benchmark'' s,
                            current_value = current_ns,
                            baseline_value = baseline_ns,
                            improvement = imp\<rparr>)
             | _ \<Rightarrow> Inl AttributeError)))))))"

fun chart_loop :: "(key \<rightharpoonup> json) \<Rightarrow> json list \<Rightarrow> py_error + chart_row list" where
  "chart_loop baseline_lookup [] = Inr []"
| "chart_loop baseline_lookup (b # bs) =
     rbind (chart_step baseline_lookup b) (\<lambda>r.
     rbind (chart_loop baseline_lookup bs) (\<lambda>rs.
     Inr (case r of None \<Rightarrow> rs | Some row \<Rightarrow> row # rs)))"

definition create_benchmark_comparison_chart :: "json \<Rightarrow> json \<Rightarrow> py_error + chart_row list" where
  "create_benchmark_comparison_chart current_data baseline_data =
     rbind (dict_get current_data ''benchmarks'' (JArr [])) (\<lambda>current_benchmarks.
     rbind (dict_get baseline_data ''benchmarks'' (JArr [])) (\<lambda>baseline_benchmarks.
     rbind (py_iter baseline_benchmarks) (\<lambda>bs.
     rbind (build_lookup Map.empty bs) (\<lambda>baseline_lookup.
     rbind (py_iter current_benchmarks) (\<lambda>cs.
     chart_loop baseline_lookup cs)))))"

section \<open>calculate_performance_score\<close>

text \<open>\<^verbatim>\<open>[b.get('ns_per_op', 0) for b in benchmarks if b.get('ns_per_op', 0) > 0]\<close>\<close>

fun ns_values :: "json list \<Rightarrow> py_error + json list" where
  "ns_values [] = Inr []"
| "ns_values (b # bs) =
     rbind (dict_get b ''ns_per_op'' (JNum 0)) (\<lambda>v.
     rbind (py_gt v 0) (\<lambda>g.
     rbind (ns_values bs) (\<lambda>vs.
     Inr (if g then v # vs else vs))))"

text \<open>\<^verbatim>\<open>sum(vs)\<close>, from the left, starting at 0.\<close>

fun py_sum :: "rat \<Rightarrow> json list \<Rightarrow> py_error + rat" where
  "py_sum acc [] = Inr acc"
| "py_sum acc (v # vs) = rbind (py_num v) (\<lambda>r. py_sum (acc + r) vs)"

definition calculate_performance_score :: "json \<Rightarrow> py_error + rat" where
  "calculate_performance_score data =
     rbind (dict_get data ''benchmarks'' (JArr [])) (\<lambda>benchmarks.
       if \<not> py_truthy benchmarks then Inr 0 else
     rbind (py_iter benchmarks) (\<lambda>bs.
     rbind (ns_values bs) (\<lambda>vs.
       if vs = [] then Inr 0 else
     rbind (py_sum 0 vs) (\<lambda>total.
     rbind (truediv total (of_nat (length vs))) (\<lambda>avg_ns.
     rbind (truediv avg_ns 1000) (\<lambda>scaled.
     Inr (min 100 (max 0 (100 - scaled)))))))))"

section \<open>create_summary_report: the numbers of the report\<close>

text \<open>Line 326: \<^verbatim>\<open>((current_ns - baseline_ns) / baseline_ns) * 100\<close>.\<close>

definition change_of :: "json \<Rightarrow> json \<Rightarrow> py_error + rat" where
  "change_of current_ns baseline_ns =
     rbind (py_num current_ns) (\<lambda>c.
     rbind (py_num baseline_ns) (\<lambda>b.
     rbind (truediv (c - b) b) (\<lambda>q.
     Inr (q * 100))))"

text \<open>One pass of the loop body (lines 317 to 330) on the two counters.\<close>

definition summary_step ::
  "(key \<rightharpoonup> json) \<Rightarrow> int \<times> int \<Rightarrow> json \<Rightarrow> py_error + int \<times> int" where
  "summary_step baseline_lookup counters current_bench =
     (case counters of (regressions, improvements) \<Rightarrow>
     rbind (subscript current_bench ''name'') (\<lambda>n.
     rbind (py_hash_key n) (\<lambda>k.
       case baseline_lookup k of
         None \<Rightarrow> Inr (regressions, improvements)
       | Some baseline_bench \<Rightarrow>
           rbind (dict_get current_bench ''ns_per_op'' (JNum 0)) (\<lambda>current_ns.
           rbind (dict_get baseline_bench ''ns_per_op'' (JNum 0)) (\<lambda>baseline_ns.
           rbind (py_gt baseline_ns 0) (\<lambda>g1.
             if \<not> g1 then Inr (regressions, improvements) else
           rbind (py_gt current_ns 0) (\<lambda>g2.
             if \<not> g2 then Inr (regressions, improvements) else
           rbind (change_of current_ns baseline_ns) (\<lambda>change.
             if change > 5 then Inr (regressions + 1, improvements)
             else if change < - 5 then Inr (regressions, improvements + 1)
             else Inr (regressions, improvements)))))))))"

fun summary_loop ::
  "(key \<rightharpoonup> json) \<Rightarrow> int \<times> int \<Rightarrow> json list \<Rightarrow> py_error + int \<times> int" where
  "summary_loop baseline_lookup counters [] = Inr counters"
| "summary_loop baseline_lookup counters (b # bs) =
     rbind (summary_step baseline_lookup counters b) (\<lambda>counters'.
     summary_loop baseline_lookup counters' bs)"

record summary =
  total_benchmarks :: int
  regressions :: int
  improvements :: int
  sizes :: "int list"
  current_score :: rat
  baseline_score :: rat

definition create_summary_report :: "json \<Rightarrow> json \<Rightarrow> py_error + summary" where
  "create_summary_report current_data baseline_data =
     rbind (dict_get current_data ''benchmarks'' (JArr [])) (\<lambda>current_benchmarks.
     rbind (dict_get baseline_data ''benchmarks'' (JArr [])) (\<lambda>baseline_benchmarks.
     rbind (py_len current_benchmarks) (\<lambda>total.
     rbind (py_iter baseline_benchmarks) (\<lambda>bs.
     rbind (build_lookup Map.empty bs) (\<lambda>baseline_lookup.
     rbind (py_iter current_benchmarks) (\<lambda>cs.
     rbind (summary_loop baseline_lookup (0, 0) cs) (\<lambda>counters.
     rbind (calculate_performance_score current_data) (\<lambda>cscore.
     rbind (calculate_performance_score baseline_data) (\<lambda>bscore.
       case counters of (r, i) \<Rightarrow>
         Inr \<lparr>total_benchmarks = total,
              regressions = r,
              improvements = i,
              sizes = [r, i, total - r - i],
              current_score = cscore,
              baseline_score = bscore\<rparr>)))))))))"

section \<open>The data model of the specification\<close>

text \<open>
  A Measurement has a name and a time per operation, and an optional number of
  allocations; a Run is a list of Measurements. \<open>json_of_run\<close> is the document of a
  run: the object whose key \<^verbatim>\<open>benchmarks\<close> holds one object per measurement, followed by
  any other keys \<open>rest\<close> (\<^verbatim>\<open>performance_stats\<close>, \<^verbatim>\<open>performance_metrics\<close>).
\<close>

record measurement =
  name :: string
  ns_per_op :: rat
  allocs_per_op :: "int option"

definition json_of_measurement :: "measurement \<Rightarrow> json" where
  "json_of_measurement m =
     JObj ([(''name'', JStr (name m)), (''ns_per_op'', JNum (ns_per_op m))] @
           (case allocs_per_op m of
              None \<Rightarrow> []
            | Some a \<Rightarrow> [(''allocs_per_op'', JNum (of_int a))]))"

definition json_of_run :: "measurement list \<Rightarrow> (string \<times> json) list \<Rightarrow> json" where
  "json_of_run ms rest = JObj ((''benchmarks'', JArr (map json_of_measurement ms)) # rest)"

datatype classification = Regression | Improvement | Unchanged

record comparison_result =
  result_name :: string
  current_ns :: rat
  baseline_ns :: rat
  change_pct :: rat
  classification :: classification

text \<open>Section 4.2 of the specification, in its words: the percentage delta, the
  classification against a threshold, the lookup in which the last of several baseline
  measurements of one name wins, and the comparison of two runs.\<close>

definition spec_change_pct :: "rat \<Rightarrow> rat \<Rightarrow> rat" where
  "spec_change_pct current baseline = (current - baseline) / baseline * 100"

definition spec_classify :: "rat \<Rightarrow> rat \<Rightarrow> classification" where
  "spec_classify threshold_pct change =
     (if change > threshold_pct then Regression
      else if change < - threshold_pct then Improvement
      else Unchanged)"

definition spec_lookup :: "measurement list \<Rightarrow> string \<Rightarrow> measurement option" where
  "spec_lookup baseline n = find (\<lambda>b. name b = n) (rev baseline)"

definition spec_compare_one ::
  "rat \<Rightarrow> measurement list \<Rightarrow> measurement \<Rightarrow> comparison_result option" where
  "spec_compare_one threshold_pct baseline m =
     (case spec_lookup baseline (name m) of
        None \<Rightarrow> None
      | Some b \<Rightarrow>
          if ns_per_op m \<le> 0 \<or> ns_per_op b \<le> 0 then None
          else Some \<lparr>result_name = name m,
                     current_ns = ns_per_op m,
                     baseline_ns = ns_per_op b,
                     change_pct = spec_change_pct (ns_per_op m) (ns_per_op b),
                     classification =
                       spec_classify threshold_pct (spec_change_pct (ns_per_op m) (ns_per_op b))\<rparr>)"

definition spec_compare ::
  "measurement list \<Rightarrow> measurement list \<Rightarrow> rat \<Rightarrow> comparison_result list" where
  "spec_compare current baseline threshold_pct =
     List.map_filter (spec_compare_one threshold_pct baseline) current"

text \<open>The score of a run, in the words of the specification.\<close>

definition clamp :: "rat \<Rightarrow> rat \<Rightarrow> rat \<Rightarrow> rat" where
  "clamp lo hi x = max lo (min hi x)"

definition spec_score :: "measurement list \<Rightarrow> rat" where
  "spec_score ms =
     (let timed = filter (\<lambda>x. 0 < x) (map ns_per_op ms)
      in if timed = [] then 0
         else clamp 0 100 (100 - (sum_list timed / of_nat (length timed)) / 1000))"

text \<open>The number of results of one classification.\<close>

definition count_class :: "classification \<Rightarrow> comparison_result list \<Rightarrow> int" where
  "count_class c rs = int (length (filter (\<lambda>r. classification r = c) rs))"

text \<open>The row of the chart that belongs to a comparison result: the chart shows the
  improvement, which is the change with the opposite sign.\<close>

definition row_of_result :: "comparison_result \<Rightarrow> chart_row" where
  "row_of_result r =
     \<lparr>benchmark_name = py_replace_empty ''Benchmark'' (result_name r),
      current_value = JNum (current_ns r),
      baseline_value = JNum (baseline_ns r),
      improvement = - change_pct r\<rparr>"

text \<open>The lookup that the script builds from the baseline of a run: a measurement is
  found under its name, and only there.\<close>

definition lookup_of :: "measurement list \<Rightarrow> key \<rightharpoonup> json" where
  "lookup_of baseline k =
     (case k of KStr n \<Rightarrow> map_option json_of_measurement (spec_lookup baseline n) | _ \<Rightarrow> None)"

section \<open>Well-formed documents\<close>





section \<open>Basic facts about the operations\<close>

lemma rbind_Inl [simp]: "rbind (Inl e) f = Inl e"
  by (simp add: rbind_def)

lemma rbind_Inr [simp]: "rbind (Inr v) f = f v"
  by (simp add: rbind_def)

lemma rbind_eq_Inr: "rbind r f = Inr y \<longleftrightarrow> (\<exists>v. r = Inr v \<and> f v = Inr y)"
  by (cases r) simp_all

lemma rbind_eq_Inl: "rbind r f = Inl e \<longleftrightarrow> r = Inl e \<or> (\<exists>v. r = Inr v \<and> f v = Inl e)"
  by (cases r) auto

lemma subscript_measurement [simp]:
  "subscript (json_of_measurement m) ''name'' = Inr (JStr (name m))"
  by (simp add: subscript_def json_of_measurement_def)

lemma dict_get_measurement [simp]:
  "dict_get (json_of_measurement m) ''ns_per_op'' d = Inr (JNum (ns_per_op m))"
  by (simp add: dict_get_def json_of_measurement_def)

lemma dict_get_run [simp]:
  "dict_get (json_of_run ms rest) ''benchmarks'' d = Inr (JArr (map json_of_measurement ms))"
  by (simp add: dict_get_def json_of_run_def)

lemma py_gt_JNum [simp]: "py_gt (JNum r) n = Inr (n < r)"
  by (simp add: py_gt_def py_num_def)

lemma py_num_JNum [simp]: "py_num (JNum r) = Inr r"
  by (simp add: py_num_def)

lemma spec_lookup_Nil [simp]: "spec_lookup [] n = None"
  by (simp add: spec_lookup_def)

lemma spec_lookup_snoc:
  "spec_lookup (bs @ [b]) n = (if name b = n then Some b else spec_lookup bs n)"
  by (simp add: spec_lookup_def)

lemma find_snoc:
  "find P (xs @ [x]) = (case find P xs of Some y \<Rightarrow> Some y | None \<Rightarrow> if P x then Some x else None)"
  by (induction xs) simp_all

lemma spec_lookup_Cons:
  "spec_lookup (b # bs) n =
     (case spec_lookup bs n of Some x \<Rightarrow> Some x | None \<Rightarrow> if name b = n then Some b else None)"
  by (simp add: spec_lookup_def find_snoc split: option.splits)

lemma build_lookup_typed:
  "build_lookup m (map json_of_measurement bs) = Inr (m ++ lookup_of bs)"
proof (induction bs arbitrary: m)
  case Nil
  have "lookup_of [] = Map.empty"
    by (rule ext) (simp add: lookup_of_def split: key.splits)
  then show ?case by simp
next
  case (Cons b bs)
  have "m(KStr (name b) \<mapsto> json_of_measurement b) ++ lookup_of bs = m ++ lookup_of (b # bs)"
    by (rule ext) (auto simp: lookup_of_def map_add_def spec_lookup_Cons split: key.splits option.splits)
  have "build_lookup m (map json_of_measurement (b # bs)) =
          build_lookup (m(KStr (name b) \<mapsto> json_of_measurement b)) (map json_of_measurement bs)"
    by simp
  also have "\<dots> = Inr (m(KStr (name b) \<mapsto> json_of_measurement b) ++ lookup_of bs)"
    by (rule Cons.IH)
  finally show ?case using \<open>m(KStr (name b) \<mapsto> json_of_measurement b) ++ lookup_of bs = m ++ lookup_of (b # bs)\<close>
    by (simp only:)
qed

lemma build_lookup_empty_typed:
  "build_lookup Map.empty (map json_of_measurement bs) = Inr (lookup_of bs)"
  using build_lookup_typed [of Map.empty bs] by simp

lemma improvement_of_JNum:
  "b \<noteq> 0 \<Longrightarrow> improvement_of (JNum b) (JNum c) = Inr ((b - c) / b * 100)"
  by (simp add: improvement_of_def truediv_def)

lemma change_of_JNum:
  "b \<noteq> 0 \<Longrightarrow> change_of (JNum c) (JNum b) = Inr ((c - b) / b * 100)"
  by (simp add: change_of_def truediv_def)

lemma neg_change: "- spec_change_pct c b = (b - c) / b * 100"
  by (cases "b = 0") (simp_all add: spec_change_pct_def field_simps)

lemma chart_step_typed:
  "chart_step (lookup_of base) (json_of_measurement m) =
     Inr (map_option row_of_result (spec_compare_one t base m))"
  by (cases "spec_lookup base (name m)")
     (auto simp: chart_step_def lookup_of_def spec_compare_one_def row_of_result_def
        improvement_of_JNum neg_change not_less)

lemma chart_loop_typed:
  "chart_loop (lookup_of base) (map json_of_measurement cur) =
     Inr (map row_of_result (spec_compare cur base t))"
proof (induction cur)
  case Nil
  show ?case by (simp add: spec_compare_def List.map_filter_simps)
next
  case (Cons m cur)
  then show ?case
    by (simp add: chart_step_typed [where t = t] spec_compare_def List.map_filter_simps
          split: option.splits)
qed

lemma py_iter_JArr [simp]: "py_iter (JArr xs) = Inr xs"
  by (simp add: py_iter_def)

lemma chart_typed:
  "create_benchmark_comparison_chart (json_of_run cur rc) (json_of_run base rb) =
     Inr (map row_of_result (spec_compare cur base t))"
  by (simp add: create_benchmark_comparison_chart_def build_lookup_empty_typed chart_loop_typed)

section \<open>The script on the documents of two runs\<close>

lemma summary_step_typed:
  "summary_step (lookup_of base) (r, i) (json_of_measurement m) =
     Inr (case map_option classification (spec_compare_one 5 base m) of
            Some Regression \<Rightarrow> (r + 1, i)
          | Some Improvement \<Rightarrow> (r, i + 1)
          | _ \<Rightarrow> (r, i))"
  by (cases "spec_lookup base (name m)")
     (auto simp: summary_step_def lookup_of_def spec_compare_one_def spec_classify_def
        spec_change_pct_def change_of_JNum not_less)

lemma count_class_Nil [simp]: "count_class c [] = 0"
  by (simp add: count_class_def)

lemma count_class_Cons [simp]:
  "count_class c (x # xs) = (if classification x = c then 1 else 0) + count_class c xs"
  by (simp add: count_class_def)

lemma spec_compare_Nil [simp]: "spec_compare [] base t = []"
  by (simp add: spec_compare_def List.map_filter_simps)

lemma spec_compare_Cons:
  "spec_compare (m # cur) base t =
     (case spec_compare_one t base m of None \<Rightarrow> spec_compare cur base t
      | Some x \<Rightarrow> x # spec_compare cur base t)"
  unfolding spec_compare_def by (simp add: List.map_filter_simps)

lemma summary_loop_typed:
  "summary_loop (lookup_of base) (r, i) (map json_of_measurement cur) =
     Inr (r + count_class Regression (spec_compare cur base 5),
          i + count_class Improvement (spec_compare cur base 5))"
proof (induction cur arbitrary: r i)
  case Nil
  show ?case by simp
next
  case (Cons m cur)
  show ?case
  proof (cases "spec_compare_one 5 base m")
    case None
    then show ?thesis
      by (simp add: summary_step_typed spec_compare_Cons Cons.IH)
  next
    case (Some x)
    then show ?thesis
      by (cases "classification x") (simp_all add: summary_step_typed spec_compare_Cons Cons.IH)
  qed
qed

lemma ns_values_typed:
  "ns_values (map json_of_measurement ms) =
     Inr (map JNum (filter (\<lambda>x. 0 < x) (map ns_per_op ms)))"
  by (induction ms) simp_all

lemma py_sum_JNum: "py_sum acc (map JNum xs) = Inr (acc + sum_list xs)"
  by (induction xs arbitrary: acc) (simp_all add: add.assoc)

lemma clamp_min_max: "min 100 (max 0 x) = clamp 0 100 (x::rat)"
  by (simp add: clamp_def min_def max_def)

lemma score_typed:
  "calculate_performance_score (json_of_run ms rest) = Inr (spec_score ms)"
proof -
  define timed where "timed = filter (\<lambda>x. 0 < x) (map ns_per_op ms)"
  have nv: "ns_values (map json_of_measurement ms) = Inr (map JNum timed)"
    by (simp add: timed_def ns_values_typed)
  have sp: "spec_score ms =
      (if timed = [] then 0
       else clamp 0 100 (100 - (sum_list timed / of_nat (length timed)) / 1000))"
    by (simp add: spec_score_def timed_def Let_def)
  have cp: "calculate_performance_score (json_of_run ms rest) =
      (if ms = [] then Inr 0
       else if timed = [] then Inr 0
       else Inr (min 100 (max 0 (100 - (sum_list timed / of_nat (length timed)) / 1000))))"
    by (simp add: calculate_performance_score_def nv py_sum_JNum truediv_def)
  have "ms = [] \<Longrightarrow> timed = []"
    by (simp add: timed_def)
  then show ?thesis
    by (auto simp: cp sp clamp_min_max)
qed

lemma py_len_JArr [simp]: "py_len (JArr xs) = Inr (int (length xs))"
  by (simp add: py_len_def)

lemma summary_typed:
  "create_summary_report (json_of_run cur rc) (json_of_run base rb) =
     Inr \<lparr>total_benchmarks = int (length cur),
          regressions = count_class Regression (spec_compare cur base 5),
          improvements = count_class Improvement (spec_compare cur base 5),
          sizes = [count_class Regression (spec_compare cur base 5),
                   count_class Improvement (spec_compare cur base 5),
                   int (length cur) - count_class Regression (spec_compare cur base 5)
                     - count_class Improvement (spec_compare cur base 5)],
          current_score = spec_score cur,
          baseline_score = spec_score base\<rparr>"
  by (simp add: create_summary_report_def build_lookup_empty_typed summary_loop_typed score_typed)


section \<open>The script on arbitrary documents\<close>

lemma dict_get_not_zde [simp]: "dict_get d k x \<noteq> Inl ZeroDivisionError"
  by (simp add: dict_get_def split: json.splits option.splits)

lemma subscript_not_zde [simp]: "subscript d k \<noteq> Inl ZeroDivisionError"
  by (simp add: subscript_def split: json.splits option.splits)

lemma py_iter_not_zde [simp]: "py_iter v \<noteq> Inl ZeroDivisionError"
  by (simp add: py_iter_def split: json.splits)

lemma py_len_not_zde [simp]: "py_len v \<noteq> Inl ZeroDivisionError"
  by (simp add: py_len_def split: json.splits)

lemma py_num_not_zde [simp]: "py_num v \<noteq> Inl ZeroDivisionError"
  by (simp add: py_num_def split: option.splits)

lemma py_gt_not_zde [simp]: "py_gt v n \<noteq> Inl ZeroDivisionError"
  by (simp add: py_gt_def rbind_eq_Inl)

lemma py_hash_key_not_zde [simp]: "py_hash_key v \<noteq> Inl ZeroDivisionError"
  by (cases v) simp_all

lemma py_gt_True: "py_gt v n = Inr True \<Longrightarrow> \<exists>r. py_num v = Inr r \<and> n < r"
  by (auto simp: py_gt_def rbind_eq_Inr)

lemma py_num_as_number: "py_num v = Inr r \<longleftrightarrow> as_number v = Some r"
  by (simp add: py_num_def split: option.splits)

lemma change_of_not_zde:
  assumes "py_gt bv 0 = Inr True"
  shows "change_of cv bv \<noteq> Inl ZeroDivisionError"
proof -
  from py_gt_True [OF assms] obtain b where "py_num bv = Inr b" "0 < b" by blast
  with py_num_not_zde [of cv] show ?thesis
    by (cases "py_num cv") (auto simp: change_of_def truediv_def)
qed

lemma improvement_of_not_zde:
  assumes "py_gt bv 0 = Inr True"
  shows "improvement_of bv cv \<noteq> Inl ZeroDivisionError"
proof -
  from py_gt_True [OF assms] obtain b where "py_num bv = Inr b" "0 < b" by blast
  with py_num_not_zde [of cv] show ?thesis
    by (cases "py_num cv") (auto simp: improvement_of_def truediv_def)
qed

lemma summary_step_not_zde: "summary_step L c b \<noteq> Inl ZeroDivisionError"
  unfolding summary_step_def
  by (auto simp: rbind_eq_Inl change_of_not_zde split: prod.splits option.splits if_splits)

lemma chart_step_not_zde: "chart_step L b \<noteq> Inl ZeroDivisionError"
  unfolding chart_step_def
  by (auto simp: rbind_eq_Inl improvement_of_not_zde split: option.splits json.splits if_splits)

lemma build_lookup_not_zde: "build_lookup m bs \<noteq> Inl ZeroDivisionError"
  by (induction bs arbitrary: m) (auto simp: rbind_eq_Inl)

lemma summary_loop_not_zde: "summary_loop L c bs \<noteq> Inl ZeroDivisionError"
  by (induction bs arbitrary: c) (auto simp: rbind_eq_Inl summary_step_not_zde)

lemma chart_loop_not_zde: "chart_loop L bs \<noteq> Inl ZeroDivisionError"
  by (induction bs) (auto simp: rbind_eq_Inl chart_step_not_zde)

lemma ns_values_not_zde: "ns_values bs \<noteq> Inl ZeroDivisionError"
  by (induction bs) (auto simp: rbind_eq_Inl)

lemma py_sum_not_zde: "py_sum acc vs \<noteq> Inl ZeroDivisionError"
  by (induction vs arbitrary: acc) (auto simp: rbind_eq_Inl)

lemma score_not_zde: "calculate_performance_score data \<noteq> Inl ZeroDivisionError"
  unfolding calculate_performance_score_def
  by (auto simp: rbind_eq_Inl ns_values_not_zde py_sum_not_zde truediv_def split: if_splits)

lemma chart_not_zde: "create_benchmark_comparison_chart c b \<noteq> Inl ZeroDivisionError"
  unfolding create_benchmark_comparison_chart_def
  by (auto simp: rbind_eq_Inl build_lookup_not_zde chart_loop_not_zde)

lemma summary_not_zde: "create_summary_report c b \<noteq> Inl ZeroDivisionError"
  unfolding create_summary_report_def
  by (auto simp: rbind_eq_Inl build_lookup_not_zde summary_loop_not_zde score_not_zde
       split: prod.splits)


lemma summary_step_counts:
  "summary_step L (r, i) b = Inr (r', i') \<Longrightarrow>
     (r', i') = (r, i) \<or> (r', i') = (r + 1, i) \<or> (r', i') = (r, i + 1)"
  unfolding summary_step_def
  by (auto simp: rbind_eq_Inr split: option.splits if_splits)

lemma summary_loop_counts:
  "summary_loop L (r, i) bs = Inr (r', i') \<Longrightarrow>
     r \<le> r' \<and> i \<le> i' \<and> r' + i' \<le> r + i + int (length bs)"
proof (induction bs arbitrary: r i)
  case Nil
  then show ?case by simp
next
  case (Cons b bs)
  from Cons.prems obtain r1 i1 where
    step: "summary_step L (r, i) b = Inr (r1, i1)" and
    rest: "summary_loop L (r1, i1) bs = Inr (r', i')"
    by (auto simp: rbind_eq_Inr)
  from summary_step_counts [OF step] Cons.IH [OF rest] show ?case
    by auto
qed

lemma py_len_iter: "py_len v = Inr t \<Longrightarrow> py_iter v = Inr cs \<Longrightarrow> t = int (length cs)"
  by (cases v) (auto simp: py_len_def py_iter_def)

lemma summary_counts:
  assumes "create_summary_report c b = Inr s"
  shows "0 \<le> regressions s \<and> 0 \<le> improvements s
     \<and> regressions s + improvements s \<le> total_benchmarks s
     \<and> sizes s = [regressions s, improvements s,
                   total_benchmarks s - regressions s - improvements s]
     \<and> (dict_get c ''benchmarks'' (JArr []) = Inr cb' \<and> py_iter cb' = Inr cs' \<longrightarrow>
          total_benchmarks s = int (length cs'))"
proof -
  from assms obtain cb t L cs r i cscore bscore where
    "dict_get c ''benchmarks'' (JArr []) = Inr cb"
    "py_len cb = Inr t" "py_iter cb = Inr cs"
    "summary_loop L (0, 0) cs = Inr (r, i)"
    "s = \<lparr>total_benchmarks = t, regressions = r, improvements = i,
          sizes = [r, i, t - r - i], current_score = cscore, baseline_score = bscore\<rparr>"
    unfolding create_summary_report_def
    by (auto simp: rbind_eq_Inr split: prod.splits)
  with summary_loop_counts [of L 0 0 cs r i] py_len_iter [of cb t cs]
  show ?thesis by auto
qed

lemma py_gt_as_number: "as_number v = Some x \<Longrightarrow> py_gt v n = Inr (n < x)"
  by (simp add: py_gt_def py_num_def)





lemma steps_skipped:
  assumes "subscript cb ''name'' = Inr n" "py_hash_key n = Inr k" "L k = Some bb"
    and "dict_get cb ''ns_per_op'' (JNum 0) = Inr cv"
    and "dict_get bb ''ns_per_op'' (JNum 0) = Inr bv"
    and "as_number cv = Some x" "as_number bv = Some y" "x \<le> 0 \<or> y \<le> 0"
  shows "summary_step L (r, i) cb = Inr (r, i)" and "chart_step L cb = Inr None"
  using assms
  by (auto simp: summary_step_def chart_step_def py_gt_as_number)

lemma steps_unmatched:
  assumes "subscript cb ''name'' = Inr n" "py_hash_key n = Inr k" "L k = None"
  shows "summary_step L (r, i) cb = Inr (r, i)" and "chart_step L cb = Inr None"
  using assms
  by (auto simp: summary_step_def chart_step_def)





section \<open>Matching by name and the order of the results\<close>




lemma find_SomeD: "find P xs = Some x \<Longrightarrow> x \<in> set xs \<and> P x"
  by (induction xs) (auto split: if_splits)

lemma spec_lookup_SomeD:
  "spec_lookup base n = Some b \<Longrightarrow> b \<in> set base \<and> name b = n"
  using find_SomeD [of "\<lambda>b. name b = n" "rev base" b]
  by (simp add: spec_lookup_def)



lemma subseq_map_filter:
  assumes "\<And>x y. f x = Some y \<Longrightarrow> g y = h x"
  shows "subseq (map g (List.map_filter f xs)) (map h xs)"
proof (induction xs)
  case Nil
  show ?case by (simp add: List.map_filter_simps)
next
  case (Cons x xs)
  show ?case
  proof (cases "f x")
    case None
    with Cons show ?thesis by (auto simp: List.map_filter_simps)
  next
    case (Some y)
    with Cons assms [OF Some] show ?thesis by (simp add: List.map_filter_simps)
  qed
qed

lemma spec_compare_one_SomeD:
  assumes "spec_compare_one t base m = Some r"
  shows "result_name r = name m" "current_ns r = ns_per_op m"
    "result_name r \<in> name ` set base" "0 < current_ns r" "0 < baseline_ns r"
  using assms spec_lookup_SomeD [of base "name m"]
  by (auto simp: spec_compare_one_def intro: rev_image_eqI split: option.splits if_splits)


lemma subseq_result_names:
  "subseq (map result_name (spec_compare cur base t)) (map name cur)"
  unfolding spec_compare_def
  by (rule subseq_map_filter) (rule spec_compare_one_SomeD(1))




section \<open>Well-formed and malformed entries\<close>



























section \<open>The claims\<close>

subsection \<open>C1: classification against the threshold of 5 percent\<close>



subsection \<open>C2: the percentage delta\<close>



subsection \<open>C3: the performance score\<close>



subsection \<open>C4: the unchanged count of the summary\<close>



subsection \<open>C5: order and number of the rows\<close>




subsection \<open>C6: malformed benchmark entries\<close>




subsection \<open>C7: no division by zero\<close>

text \<open>
  Claim C7. \<open>truediv\<close> raises ZeroDivisionError exactly at a zero divisor, and neither the
  summary nor the comparison chart, nor a single pass of their loops, ever ends in that
  error, whatever the documents are. A matched pair of numeric times of which one is zero
  or negative is skipped: the pass leaves the counters as they are and appends no row.
\<close>

theorem division_by_zero_unreachable:
  "create_summary_report c d \<noteq> Inl ZeroDivisionError
   \<and> create_benchmark_comparison_chart c d \<noteq> Inl ZeroDivisionError
   \<and> summary_step L (r, i) cb \<noteq> Inl ZeroDivisionError
   \<and> chart_step L cb \<noteq> Inl ZeroDivisionError
   \<and> (subscript cb ''name'' = Inr n \<and> py_hash_key n = Inr k \<and> L k = Some bb
        \<and> dict_get cb ''ns_per_op'' (JNum 0) = Inr cv
        \<and> dict_get bb ''ns_per_op'' (JNum 0) = Inr bv
        \<and> as_number cv = Some x \<and> as_number bv = Some y \<and> (x \<le> 0 \<or> y \<le> 0) \<longrightarrow>
      summary_step L (r, i) cb = Inr (r, i) \<and> chart_step L cb = Inr None)
   \<and> (truediv p q = Inl ZeroDivisionError \<longleftrightarrow> q = 0)"
  using summary_not_zde [of c d] chart_not_zde [of c d] summary_step_not_zde [of L "(r, i)" cb]
    chart_step_not_zde [of L cb]
    steps_skipped(1) [where L = L and cb = cb and n = n and k = k and bb = bb
      and cv = cv and bv = bv and x = x and y = y and r = r and i = i]
    steps_skipped(2) [where L = L and cb = cb and n = n and k = k and bb = bb
      and cv = cv and bv = bv and x = x and y = y]
  by (auto simp: truediv_def)

text \<open>A baseline time of 0: the pair is skipped by both functions, where the division
  itself would raise.\<close>

theorem division_by_zero_unreachable_witness:
  "create_summary_report
     (json_of_run [\<lparr>name = ''A'', ns_per_op = 100, allocs_per_op = None\<rparr>] [])
     (json_of_run [\<lparr>name = ''A'', ns_per_op = 0, allocs_per_op = None\<rparr>] []) =
   Inr \<lparr>total_benchmarks = 1, regressions = 0, improvements = 0, sizes = [0, 0, 1],
        current_score = 999 / 10, baseline_score = 0\<rparr>
   \<and> create_benchmark_comparison_chart
     (json_of_run [\<lparr>name = ''A'', ns_per_op = 100, allocs_per_op = None\<rparr>] [])
     (json_of_run [\<lparr>name = ''A'', ns_per_op = 0, allocs_per_op = None\<rparr>] []) = Inr []
   \<and> summary_step [KStr ''A'' \<mapsto> JObj [(''name'', JStr ''A''), (''ns_per_op'', JNum 0)]] (0, 0)
        (JObj [(''name'', JStr ''A''), (''ns_per_op'', JNum 100)]) = Inr (0, 0)
   \<and> chart_step [KStr ''A'' \<mapsto> JObj [(''name'', JStr ''A''), (''ns_per_op'', JNum 0)]]
        (JObj [(''name'', JStr ''A''), (''ns_per_op'', JNum 100)]) = Inr None
   \<and> truediv 100 0 = Inl ZeroDivisionError"
proof -
  have s: "create_summary_report
     (json_of_run [\<lparr>name = ''A'', ns_per_op = 100, allocs_per_op = None\<rparr>] [])
     (json_of_run [\<lparr>name = ''A'', ns_per_op = 0, allocs_per_op = None\<rparr>] []) =
   Inr \<lparr>total_benchmarks = 1, regressions = 0, improvements = 0, sizes = [0, 0, 1],
        current_score = 999 / 10, baseline_score = 0\<rparr>"
    by (simp add: summary_typed spec_compare_Cons spec_compare_one_def spec_lookup_def
          spec_score_def clamp_def)
  have c: "create_benchmark_comparison_chart
     (json_of_run [\<lparr>name = ''A'', ns_per_op = 100, allocs_per_op = None\<rparr>] [])
     (json_of_run [\<lparr>name = ''A'', ns_per_op = 0, allocs_per_op = None\<rparr>] []) = Inr []"
    by (simp add: chart_typed [where t = 5] spec_compare_Cons spec_compare_one_def spec_lookup_def)
  from s c division_by_zero_unreachable
    [where L = "[KStr ''A'' \<mapsto> JObj [(''name'', JStr ''A''), (''ns_per_op'', JNum 0)]]"
       and cb = "JObj [(''name'', JStr ''A''), (''ns_per_op'', JNum 100)]"
       and n = "JStr ''A''" and k = "KStr ''A''"
       and bb = "JObj [(''name'', JStr ''A''), (''ns_per_op'', JNum 0)]"
       and cv = "JNum 100" and bv = "JNum 0" and x = 100 and y = 0 and r = 0 and i = 0
       and p = 100 and q = 0]
  show ?thesis
    by (simp add: subscript_def dict_get_def)
qed

subsection \<open>C8: matching by exact name, the last baseline entry wins\<close>



subsection \<open>C9: loading a document\<close>

text \<open>
  Claim C9, as stated, fails in one direction: the error value \<^verbatim>\<open>None\<close> is also what the
  function returns for a file that is present, readable and well-formed, namely one whose
  content is the literal \<^verbatim>\<open>null\<close>, which \<^verbatim>\<open>json.load\<close> parses to \<^verbatim>\<open>None\<close>.
\<close>

theorem load_null_document_counterexample:
  "[''report.json'' \<mapsto> ''null''] ''report.json'' = Some ''null''
   \<and> [''null'' \<mapsto> JNull] ''null'' = Some JNull
   \<and> load_performance_data [''report.json'' \<mapsto> ''null''] [''null'' \<mapsto> JNull] ''report.json'' = JNull"
  by (simp add: load_performance_data_def)

text \<open>
  Claim C9, amended. The function returns \<^verbatim>\<open>None\<close> when the file cannot be read and when
  its content cannot be parsed, and otherwise the parsed document as the parser gives it,
  so with the benchmarks in the order of the document. It returns \<^verbatim>\<open>None\<close> exactly in these
  two cases and for a document that is itself \<^verbatim>\<open>null\<close>. In every case it returns a value:
  a failure reaches the caller as \<^verbatim>\<open>None\<close>.
\<close>

theorem load_returns_document_or_none:
  "(read_file filename = None \<longrightarrow> load_performance_data read_file parse filename = JNull)
   \<and> (read_file filename = Some content \<and> parse content = None \<longrightarrow>
        load_performance_data read_file parse filename = JNull)
   \<and> (read_file filename = Some content \<and> parse content = Some doc \<longrightarrow>
        load_performance_data read_file parse filename = doc)
   \<and> (load_performance_data read_file parse filename = JNull \<longleftrightarrow>
        read_file filename = None
        \<or> (\<exists>t. read_file filename = Some t \<and> (parse t = None \<or> parse t = Some JNull)))"
  by (auto simp: load_performance_data_def split: option.splits)

text \<open>A missing file, a file that does not parse, and a file holding an empty object.\<close>

theorem load_returns_document_or_none_witness:
  "load_performance_data Map.empty [''null'' \<mapsto> JNull] ''report.json'' = JNull
   \<and> load_performance_data [''report.json'' \<mapsto> ''{''] Map.empty ''report.json'' = JNull
   \<and> load_performance_data
        [''report.json'' \<mapsto> ''{}'']
        [''{}'' \<mapsto> JObj []] ''report.json'' =
      JObj []"
  using load_returns_document_or_none
      [where read_file = "Map.empty" and parse = "[''null'' \<mapsto> JNull]" and filename = "''report.json''"]
    load_returns_document_or_none
      [where read_file = "[''report.json'' \<mapsto> ''{'']" and parse = "Map.empty"
         and filename = "''report.json''" and content = "''{''"]
    load_returns_document_or_none
      [where read_file = "[''report.json'' \<mapsto> ''{}'']"
         and parse = "[''{}'' \<mapsto> JObj []]"
         and filename = "''report.json''" and content = "''{}''"
         and doc = "JObj []"]
  by simp

subsection \<open>C10: the counters of the summary\<close>

text \<open>
  Claim C10. A pass of the summary loop increments at most one of the two counters, by
  one. Whenever the summary is produced, on any two documents, both counters are
  non-negative, their sum is at most the number of current benchmarks, which is the
  length of what the loop iterates over, and the third size of the pie chart, the number
  of current benchmarks minus both counters, is non-negative.
\<close>

theorem summary_counters_bounded:
  "(summary_step L (r, i) b = Inr (r', i') \<longrightarrow>
      (r', i') = (r, i) \<or> (r', i') = (r + 1, i) \<or> (r', i') = (r, i + 1))
   \<and> (create_summary_report c d = Inr s \<longrightarrow>
        0 \<le> regressions s \<and> 0 \<le> improvements s
        \<and> regressions s + improvements s \<le> total_benchmarks s
        \<and> sizes s = [regressions s, improvements s,
                      total_benchmarks s - regressions s - improvements s]
        \<and> 0 \<le> total_benchmarks s - regressions s - improvements s
        \<and> (dict_get c ''benchmarks'' (JArr []) = Inr cb \<and> py_iter cb = Inr cs \<longrightarrow>
              total_benchmarks s = int (length cs)))"
  using summary_step_counts [of L r i b r' i'] summary_counts [of c d s cb cs]
  by auto

text \<open>One pass that counts a regression, and a summary of three current benchmarks with
  one regression, one improvement and one benchmark without a baseline.\<close>

theorem summary_counters_bounded_witness:
  "summary_step [KStr ''A'' \<mapsto> JObj [(''name'', JStr ''A''), (''ns_per_op'', JNum 100)]] (3, 4)
        (JObj [(''name'', JStr ''A''), (''ns_per_op'', JNum 200)]) = Inr (4, 4)
   \<and> create_summary_report
     (json_of_run [\<lparr>name = ''A'', ns_per_op = 200, allocs_per_op = None\<rparr>,
                   \<lparr>name = ''B'', ns_per_op = 50, allocs_per_op = None\<rparr>,
                   \<lparr>name = ''C'', ns_per_op = 50, allocs_per_op = None\<rparr>] [])
     (json_of_run [\<lparr>name = ''A'', ns_per_op = 100, allocs_per_op = None\<rparr>,
                   \<lparr>name = ''B'', ns_per_op = 100, allocs_per_op = None\<rparr>] []) =
   Inr \<lparr>total_benchmarks = 3, regressions = 1, improvements = 1, sizes = [1, 1, 1],
        current_score = 999 / 10, baseline_score = 999 / 10\<rparr>
   \<and> (1::int) + 1 \<le> 3"
proof -
  have st: "summary_step [KStr ''A'' \<mapsto> JObj [(''name'', JStr ''A''), (''ns_per_op'', JNum 100)]] (3, 4)
        (JObj [(''name'', JStr ''A''), (''ns_per_op'', JNum 200)]) = Inr (4, 4)"
    by (simp add: summary_step_def subscript_def dict_get_def change_of_def truediv_def)
  have s: "create_summary_report
     (json_of_run [\<lparr>name = ''A'', ns_per_op = 200, allocs_per_op = None\<rparr>,
                   \<lparr>name = ''B'', ns_per_op = 50, allocs_per_op = None\<rparr>,
                   \<lparr>name = ''C'', ns_per_op = 50, allocs_per_op = None\<rparr>] [])
     (json_of_run [\<lparr>name = ''A'', ns_per_op = 100, allocs_per_op = None\<rparr>,
                   \<lparr>name = ''B'', ns_per_op = 100, allocs_per_op = None\<rparr>] []) =
   Inr \<lparr>total_benchmarks = 3, regressions = 1, improvements = 1, sizes = [1, 1, 1],
        current_score = 999 / 10, baseline_score = 999 / 10\<rparr>"
    by (simp add: summary_typed spec_compare_Cons spec_compare_one_def spec_lookup_def
          spec_change_pct_def spec_classify_def spec_score_def clamp_def)
  from st s summary_counters_bounded
    [where L = "[KStr ''A'' \<mapsto> JObj [(''name'', JStr ''A''), (''ns_per_op'', JNum 100)]]"
       and b = "JObj [(''name'', JStr ''A''), (''ns_per_op'', JNum 200)]"
       and r = 3 and i = 4 and r' = 4 and i' = 4
       and c = "json_of_run [\<lparr>name = ''A'', ns_per_op = 200, allocs_per_op = None\<rparr>,
                   \<lparr>name = ''B'', ns_per_op = 50, allocs_per_op = None\<rparr>,
                   \<lparr>name = ''C'', ns_per_op = 50, allocs_per_op = None\<rparr>] []"
       and d = "json_of_run [\<lparr>name = ''A'', ns_per_op = 100, allocs_per_op = None\<rparr>,
                   \<lparr>name = ''B'', ns_per_op = 100, allocs_per_op = None\<rparr>] []"
       and s = "\<lparr>total_benchmarks = 3, regressions = 1, improvements = 1, sizes = [1, 1, 1],
        current_score = 999 / 10, baseline_score = 999 / 10\<rparr>"]
  show ?thesis
    by simp
qed

end
